theory Spec2Isabelle
  imports Main "HOL-Library.Sublist"
begin

section \<open>Data model of the ingestion handlers (server/handlers2.go)\<close>

text \<open>
  Go values are modelled as follows.  A pointer is an \<open>option\<close> (\<open>None\<close> is
  \<open>nil\<close>), a slice is a list, and a slice that the code compares with \<open>nil\<close> is a
  list option.  A Go \<open>error\<close> is its message, a string; \<open>fmt.Errorf("p: %w", err)\<close>
  is the prefix followed by the wrapped message.  Identifiers of type \<open>uuid.UUID\<close>
  are natural numbers; their string form and the parser are library functions.
  Record fields carry a short prefix of their struct, because Isabelle record fields
  share one name space: \<open>tcId\<close> is \<open>SentinelToolCall.Id\<close>, \<open>mId\<close> is
  \<open>SentinelMessage.Id\<close>, and so on.  Fields of library structs that the handlers
  never read are left out.
\<close>

type_synonym uuid = nat
type_synonym err = string

text \<open>A run-time panic of the Go program: the two the handlers can raise.\<close>

datatype panic =
  SliceBoundsOutOfRange nat nat
| NilPointerDereference

text \<open>The result of a function returning \<open>(T, error)\<close> that may also panic.\<close>

datatype 'a result = Ok 'a | Err err | Panic panic

subsection \<open>go-openai structs (the fields read by the handlers)\<close>

record ChatMessageImageURL =
  URL :: string

record ChatMessagePart =
  partType :: string
  partText :: string
  partImageURL :: "ChatMessageImageURL option"

record FunctionCall =
  fnName :: string
  fnArguments :: string

record ToolCall =
  Function :: FunctionCall

record ChatCompletionMessage =
  oaRole :: string
  oaContent :: string
  oaMultiContent :: "ChatMessagePart list option"
  oaToolCalls :: "ToolCall list"

record ChatCompletionChoice =
  oaIndex :: int
  oaMessage :: ChatCompletionMessage
  oaFinishReason :: string

record ChatCompletionRequest =
  Messages :: "ChatCompletionMessage list"

record ChatCompletionResponse =
  Choices :: "ChatCompletionChoice list"

subsection \<open>Sentinel structs\<close>

text \<open>
  The declarations of \<open>MessageType\<close>, \<open>SentinelMessageRole\<close> and
  \<open>SentinelChoiceFinishReason\<close> are not part of the two source files.  The handlers
  use them in conversions from strings (\<open>SentinelMessageRole(message.Role)\<close>,
  \<open>SentinelChoiceFinishReason(choice.FinishReason)\<close>) and from a string-typed library
  value, so they are string types; a Go conversion between string types keeps the value.
\<close>

type_synonym MessageType = string
type_synonym SentinelMessageRole = string
type_synonym SentinelChoiceFinishReason = string

definition Text :: MessageType where
  \<comment> \<open>Modelled from the spec: the constant \<open>Text\<close> of the absent declaration of
      \<open>MessageType\<close>; the spec names the content type \<open>text\<close>.\<close>
  "Text = ''text''"

definition ImageUrl :: MessageType where
  \<comment> \<open>Modelled from the spec: the constant \<open>ImageUrl\<close> of the absent declaration of
      \<open>MessageType\<close>; the spec names the content type \<open>image-url\<close>.\<close>
  "ImageUrl = ''image_url''"

definition MessageType_zero :: MessageType where
  \<comment> \<open>The value of \<open>var msgType MessageType\<close> before any assignment: Go's zero value
      of a string type.\<close>
  "MessageType_zero = ''''"

record SentinelToolCall =
  tcId :: string
  tcToolId :: string
  tcName :: "string option"
  tcArguments :: "string option"

record SentinelMessage =
  mId :: "string option"
  mRole :: SentinelMessageRole
  mToolCalls :: "SentinelToolCall list option"
  mType :: "MessageType option"
  mContent :: string

record SentinelChoice =
  SentinelId :: string
  Index :: int
  Message :: SentinelMessage
  FinishReason :: SentinelChoiceFinishReason

record SentinelChat =
  RequestData :: string
  ResponseData :: string

record Tool =
  tlId :: uuid

record Chain =
  ChainId :: uuid

record ToolCallIds =
  ToolCallId :: "string option"
  ToolId :: "string option"

record ChoiceIds =
  ChoiceId :: string
  MessageId :: string
  ToolCallIds :: "ToolCallIds list"

record ChatIds =
  ChatId :: uuid
  ChoiceIds :: "ChoiceIds list"

text \<open>
  \<open>RunExecution\<close>: \<open>'s\<close> is the struct \<open>ChainExecutionState\<close> and \<open>'t\<close> the type
  \<open>Status\<close>; neither declaration is in the source files, and the handler only copies
  their values.
\<close>

record ('s, 't) RunExecution =
  Chains :: "'s list"
  Toolcall :: SentinelToolCall
  Status :: "'t"

subsection \<open>HTTP responses\<close>

definition StatusOK :: nat where "StatusOK = 200"
definition StatusBadRequest :: nat where "StatusBadRequest = 400"
definition StatusNotFound :: nat where "StatusNotFound = 404"
definition StatusInternalServerError :: nat where "StatusInternalServerError = 500"

text \<open>
  What a handler does with its \<open>http.ResponseWriter\<close>:
  \<open>sendErrorResponse(w, status, message, details)\<close>, \<open>respondJSON(w, body, status)\<close>,
  or a panic that leaves the handler without a response.
\<close>

datatype 'a response =
  ErrorResponse nat string string
| JSONResponse 'a nat
| Panicked panic

fun status_of :: "'a response \<Rightarrow> nat option" where
  "status_of (ErrorResponse status message details) = Some status"
| "status_of (JSONResponse body status) = Some status"
| "status_of (Panicked p) = None"

subsection \<open>The Store and the libraries, as the handlers call them\<close>

text \<open>
  \<open>Store\<close> is an interface of the repository whose declaration and implementations
  are not in the source files; the handlers receive it as an argument, and so does
  the model: a record of the methods the handlers call.  A method returning
  \<open>(T, error)\<close> returns \<open>Inl\<close> of the message when the error is not \<open>nil\<close>.  The type
  \<open>'s\<close> is the struct \<open>ChainExecutionState\<close>, which the handlers only copy.
  The context argument is left out: the handlers only pass it on.
\<close>

record 's Store =
  GetToolCall :: "uuid \<Rightarrow> err + SentinelToolCall option"
  GetMessagesForRun :: "uuid \<Rightarrow> err + SentinelMessage list"
  GetToolFromNameAndRunId :: "string \<Rightarrow> uuid \<Rightarrow> err + Tool option"
  CreateChatRequest :: "uuid \<Rightarrow> string \<Rightarrow> string \<Rightarrow> SentinelChoice list \<Rightarrow> string
                          \<Rightarrow> SentinelMessage list \<Rightarrow> err + uuid option"
  GetSupervisorChains :: "uuid \<Rightarrow> err + Chain list"
  GetChainExecutionFromChainAndToolCall :: "uuid \<Rightarrow> uuid \<Rightarrow> err + uuid option"
  GetChainExecutionState :: "uuid \<Rightarrow> err + 's option"

text \<open>
  The library functions the handlers call.  \<open>uuid.New()\<close> draws a fresh identifier:
  the handlers thread a counter \<open>n\<close>, and the \<open>n\<close>-th draw is \<open>uuid_New lib n\<close>.
\<close>

record Lib =
  json_Decode_body :: "string \<Rightarrow> err + SentinelChat"
  base64_DecodeString :: "string \<Rightarrow> err + string"
  json_Unmarshal_request :: "string \<Rightarrow> err + ChatCompletionRequest"
  json_Marshal_request :: "ChatCompletionRequest \<Rightarrow> err + string"
  json_Unmarshal_response :: "string \<Rightarrow> err + ChatCompletionResponse"
  json_Marshal_response :: "ChatCompletionResponse \<Rightarrow> err + string"
  uuid_New :: "nat \<Rightarrow> uuid"
  uuid_String :: "uuid \<Rightarrow> string"
  uuid_Parse :: "string \<Rightarrow> err + uuid"

section \<open>filterRequestMessages\<close>

text \<open>
  \<open>requestMessages[numMessagesLogged:]\<close> panics when \<open>numMessagesLogged\<close> is larger
  than \<open>len(requestMessages)\<close>; otherwise it is the list without its first
  \<open>numMessagesLogged\<close> elements.
\<close>

definition filterRequestMessages ::
  "SentinelMessage list \<Rightarrow> uuid \<Rightarrow> 's Store \<Rightarrow> SentinelMessage list result" where
  "filterRequestMessages requestMessages runId store =
     (case GetMessagesForRun store runId of
        Inl e \<Rightarrow> Err (''error getting messages for run: '' @ e)
      | Inr messagesForRun \<Rightarrow>
          (let numMessagesLogged = length messagesForRun in
           if numMessagesLogged \<le> length requestMessages
           then Ok (drop numMessagesLogged requestMessages)
           else Panic (SliceBoundsOutOfRange numMessagesLogged (length requestMessages))))"

section \<open>Conversion of tool calls, messages and choices\<close>

text \<open>
  Every conversion takes the counter \<open>n\<close> of identifiers drawn so far and returns
  the new counter with its value.
\<close>

definition convertToolCall ::
  "Lib \<Rightarrow> 's Store \<Rightarrow> nat \<Rightarrow> ToolCall \<Rightarrow> uuid \<Rightarrow> (SentinelToolCall option \<times> nat) result" where
  "convertToolCall lib store n toolCall runId =
     (case GetToolFromNameAndRunId store (fnName (Function toolCall)) runId of
        Inl e \<Rightarrow> Err (''error getting tool: '' @ e)
      | Inr None \<Rightarrow> Err (''tool not found: '' @ fnName (Function toolCall))
      | Inr (Some tool) \<Rightarrow>
          (let id' = uuid_String lib (uuid_New lib n) in
           Ok (Some \<lparr>tcId = id',
                     tcToolId = uuid_String lib (tlId tool),
                     tcName = Some (fnName (Function toolCall)),
                     tcArguments = Some (fnArguments (Function toolCall))\<rparr>,
               Suc n)))"

fun convertToolCalls_loop ::
  "Lib \<Rightarrow> 's Store \<Rightarrow> uuid \<Rightarrow> ToolCall list \<Rightarrow> SentinelToolCall list \<Rightarrow> nat
     \<Rightarrow> (SentinelToolCall list \<times> nat) result" where
  "convertToolCalls_loop lib store runId [] result n = Ok (result, n)"
| "convertToolCalls_loop lib store runId (toolCall # rest) result n =
     (case convertToolCall lib store n toolCall runId of
        Err e \<Rightarrow> Err (''error converting tool call: '' @ e)
      | Panic p \<Rightarrow> Panic p
      | Ok (converted, n') \<Rightarrow>
          convertToolCalls_loop lib store runId rest
            (case converted of None \<Rightarrow> result | Some tc \<Rightarrow> result @ [tc]) n')"

definition convertToolCalls ::
  "Lib \<Rightarrow> 's Store \<Rightarrow> nat \<Rightarrow> ToolCall list \<Rightarrow> uuid \<Rightarrow> (SentinelToolCall list \<times> nat) result" where
  "convertToolCalls lib store n toolCalls runId =
     convertToolCalls_loop lib store runId toolCalls [] n"

text \<open>
  The loop of \<open>convertMessage\<close> over \<open>message.MultiContent\<close>, on the pair
  \<open>(msgType, msgContent)\<close>.  \<open>content.ImageURL\<close> is a pointer, and
  \<open>content.ImageURL.URL\<close> panics when it is \<open>nil\<close>.
\<close>

fun convertMessage_loop ::
  "ChatMessagePart list \<Rightarrow> MessageType \<times> string \<Rightarrow> panic + MessageType \<times> string" where
  "convertMessage_loop [] (msgType, msgContent) = Inr (msgType, msgContent)"
| "convertMessage_loop (content # rest) (msgType, msgContent) =
     (if partType content = ''image_url''
      then (case partImageURL content of
              None \<Rightarrow> Inl NilPointerDereference
            | Some imageURL \<Rightarrow> convertMessage_loop rest (ImageUrl, URL imageURL))
      else convertMessage_loop rest (msgType, msgContent))"

definition convertMessage ::
  "Lib \<Rightarrow> 's Store \<Rightarrow> nat \<Rightarrow> ChatCompletionMessage \<Rightarrow> uuid \<Rightarrow> (SentinelMessage \<times> nat) result" where
  "convertMessage lib store n message runId =
     (case convertToolCalls lib store n (oaToolCalls message) runId of
        Err e \<Rightarrow> Err (''error converting tool calls: '' @ e)
      | Panic p \<Rightarrow> Panic p
      | Ok (toolCalls, n') \<Rightarrow>
          (case (case oaMultiContent message of
                   Some multiContent \<Rightarrow> convertMessage_loop multiContent (MessageType_zero, '''')
                 | None \<Rightarrow> Inr (Text, oaContent message)) of
             Inl p \<Rightarrow> Panic p
           | Inr (msgType, msgContent) \<Rightarrow>
               (let id' = uuid_String lib (uuid_New lib n') in
                Ok (\<lparr>mId = Some id',
                       mRole = oaRole message,
                       mToolCalls = Some toolCalls,
                       mType = Some msgType,
                       mContent = msgContent\<rparr>,
                    Suc n'))))"

fun convertChoices_loop ::
  "Lib \<Rightarrow> 's Store \<Rightarrow> uuid \<Rightarrow> ChatCompletionChoice list \<Rightarrow> SentinelChoice list \<Rightarrow> nat
     \<Rightarrow> (SentinelChoice list \<times> nat) result" where
  "convertChoices_loop lib store runId [] result n = Ok (result, n)"
| "convertChoices_loop lib store runId (choice # rest) result n =
     (case convertMessage lib store n (oaMessage choice) runId of
        Err e \<Rightarrow> Err (''error converting message: '' @ e)
      | Panic p \<Rightarrow> Panic p
      | Ok (message, n') \<Rightarrow>
          (let id' = uuid_String lib (uuid_New lib n') in
           convertChoices_loop lib store runId rest
             (result @ [\<lparr>SentinelId = id',
                           Index = oaIndex choice,
                           Message = message,
                           FinishReason = oaFinishReason choice\<rparr>])
             (Suc n')))"

definition convertChoices ::
  "Lib \<Rightarrow> 's Store \<Rightarrow> nat \<Rightarrow> ChatCompletionChoice list \<Rightarrow> uuid \<Rightarrow> (SentinelChoice list \<times> nat) result" where
  "convertChoices lib store n choices runId =
     convertChoices_loop lib store runId choices [] n"

section \<open>Decoding of the request and of the response\<close>

text \<open>The call of \<open>fmt.Printf\<close> in the loop writes to standard output only.\<close>

fun validateAndDecodeRequest_loop ::
  "Lib \<Rightarrow> 's Store \<Rightarrow> uuid \<Rightarrow> ChatCompletionMessage list \<Rightarrow> SentinelMessage list \<Rightarrow> nat
     \<Rightarrow> (SentinelMessage list \<times> nat) result" where
  "validateAndDecodeRequest_loop lib store runId [] convertedMessages n =
     Ok (convertedMessages, n)"
| "validateAndDecodeRequest_loop lib store runId (message # rest) convertedMessages n =
     (case convertMessage lib store n message runId of
        Err e \<Rightarrow> Err (''error converting messages: '' @ e)
      | Panic p \<Rightarrow> Panic p
      | Ok (convertedMessage, n') \<Rightarrow>
          validateAndDecodeRequest_loop lib store runId rest
            (convertedMessages @ [convertedMessage]) n')"

definition validateAndDecodeRequest ::
  "Lib \<Rightarrow> 's Store \<Rightarrow> nat \<Rightarrow> string \<Rightarrow> uuid
     \<Rightarrow> ((string \<times> SentinelMessage list) \<times> nat) result" where
  "validateAndDecodeRequest lib store n encodedData runId =
     (case base64_DecodeString lib encodedData of
        Inl e \<Rightarrow> Err (''invalid base64 format: '' @ e)
      | Inr decodedRequest \<Rightarrow>
          (case json_Unmarshal_request lib decodedRequest of
             Inl e \<Rightarrow> Err (''invalid request format: '' @ e)
           | Inr v \<Rightarrow>
               (case validateAndDecodeRequest_loop lib store runId (Messages v) [] n of
                  Err e \<Rightarrow> Err e
                | Panic p \<Rightarrow> Panic p
                | Ok (convertedMessages, n') \<Rightarrow>
                    (case json_Marshal_request lib v of
                       Inl e \<Rightarrow> Err (''error marshalling request: '' @ e)
                     | Inr marshaledRequest \<Rightarrow>
                         Ok ((marshaledRequest, convertedMessages), n')))))"

definition validateAndDecodeResponse ::
  "Lib \<Rightarrow> string \<Rightarrow> err + (string \<times> ChatCompletionResponse)" where
  "validateAndDecodeResponse lib encodedData =
     (case base64_DecodeString lib encodedData of
        Inl e \<Rightarrow> Inl (''invalid base64 format: '' @ e)
      | Inr decodedResponse \<Rightarrow>
          (case json_Unmarshal_response lib decodedResponse of
             Inl e \<Rightarrow> Inl (''invalid response format: '' @ e)
           | Inr v \<Rightarrow>
               (case json_Marshal_response lib v of
                  Inl e \<Rightarrow> Inl (''error marshalling response: '' @ e)
                | Inr b \<Rightarrow> Inr (b, v))))"

section \<open>extractChatIds\<close>

text \<open>
  The inner loop appends one \<open>ToolCallIds\<close> per tool call.  Its fields are the
  pointers \<open>&toolCall.Id\<close> and \<open>&toolCall.ToolId\<close> into the loop variable; the model
  holds the string each pointer refers to when the response is written.  That is the
  tool call's own field under the per-iteration loop variables of Go 1.22 and later,
  which the model takes: the \<open>go.mod\<close> of the repository is not among the source
  files.  \<open>*choice.Message.Id\<close> panics on a \<open>nil\<close> identifier.
\<close>

fun extractChatIds_toolCalls :: "SentinelToolCall list \<Rightarrow> ToolCallIds list \<Rightarrow> ToolCallIds list" where
  "extractChatIds_toolCalls [] toolCallIds = toolCallIds"
| "extractChatIds_toolCalls (toolCall # rest) toolCallIds =
     extractChatIds_toolCalls rest
       (toolCallIds @ [\<lparr>ToolCallId = Some (tcId toolCall), ToolId = Some (tcToolId toolCall)\<rparr>])"

fun extractChatIds_loop :: "SentinelChoice list \<Rightarrow> ChatIds \<Rightarrow> panic + ChatIds" where
  "extractChatIds_loop [] result = Inr result"
| "extractChatIds_loop (choice # rest) result =
     (case mId (Message choice) of
        None \<Rightarrow> Inl NilPointerDereference
      | Some messageId \<Rightarrow>
          (let choiceIds = \<lparr>ChoiceId = SentinelId choice, MessageId = messageId, ToolCallIds = []\<rparr>;
               choiceIds' =
                 (case mToolCalls (Message choice) of
                    None \<Rightarrow> choiceIds
                  | Some toolCalls \<Rightarrow>
                      choiceIds\<lparr>ToolCallIds :=
                        extractChatIds_toolCalls toolCalls (ToolCallIds choiceIds)\<rparr>)
           in extractChatIds_loop rest (result\<lparr>ChoiceIds := ChoiceIds result @ [choiceIds']\<rparr>)))"

definition extractChatIds :: "uuid \<Rightarrow> SentinelChoice list \<Rightarrow> panic + ChatIds" where
  "extractChatIds chatId choices =
     extractChatIds_loop choices \<lparr>ChatId = chatId, ChoiceIds = []\<rparr>"

section \<open>apiCreateNewChatHandler\<close>

text \<open>
  The handler's one write to the Store is the call of \<open>store.CreateChatRequest\<close>.
  The model returns, beside the response, the list of the calls made, each with its
  arguments.
\<close>

record CreateChatRequest_call =
  cwRunId :: uuid
  cwRequest :: string
  cwResponse :: string
  cwChoices :: "SentinelChoice list"
  cwProvider :: string
  cwMessages :: "SentinelMessage list"

definition apiCreateNewChatHandler ::
  "Lib \<Rightarrow> 's Store \<Rightarrow> nat \<Rightarrow> string \<Rightarrow> uuid \<Rightarrow> ChatIds response \<times> CreateChatRequest_call list" where
  "apiCreateNewChatHandler lib store n body runId =
     (case json_Decode_body lib body of
        Inl e \<Rightarrow> (ErrorResponse StatusBadRequest ''Invalid JSON format'' e, [])
      | Inr payload \<Rightarrow>
     (case validateAndDecodeRequest lib store n (RequestData payload) runId of
        Err e \<Rightarrow> (ErrorResponse StatusBadRequest (''Request: '' @ e) '''', [])
      | Panic p \<Rightarrow> (Panicked p, [])
      | Ok ((jsonRequest, requestMessages), n1) \<Rightarrow>
     (case filterRequestMessages requestMessages runId store of
        Err e \<Rightarrow>
          (ErrorResponse StatusBadRequest (''Error filtering request messages: '' @ e) '''', [])
      | Panic p \<Rightarrow> (Panicked p, [])
      | Ok newRequestMessages \<Rightarrow>
     (case validateAndDecodeResponse lib (ResponseData payload) of
        Inl e \<Rightarrow> (ErrorResponse StatusBadRequest (''Response: '' @ e) '''', [])
      | Inr (jsonResponse, response) \<Rightarrow>
     (case convertChoices lib store n1 (Choices response) runId of
        Err e \<Rightarrow> (ErrorResponse StatusBadRequest (''Error converting choices: '' @ e) '''', [])
      | Panic p \<Rightarrow> (Panicked p, [])
      | Ok (choices, n2) \<Rightarrow>
     (let call = \<lparr>cwRunId = runId, cwRequest = jsonRequest, cwResponse = jsonResponse,
                   cwChoices = choices, cwProvider = ''openai'',
                   cwMessages = newRequestMessages\<rparr> in
      case CreateChatRequest store runId jsonRequest jsonResponse choices ''openai''
             newRequestMessages of
        Inl e \<Rightarrow>
          (ErrorResponse StatusBadRequest (''Error creating chat request: '' @ e) '''', [call])
      | Inr None \<Rightarrow> (Panicked NilPointerDereference, [call])
      | Inr (Some chatId) \<Rightarrow>
          (case extractChatIds chatId choices of
             Inl p \<Rightarrow> (Panicked p, [call])
           | Inr chatIds \<Rightarrow> (JSONResponse chatIds StatusOK, [call]))))))))"

section \<open>The read handlers\<close>

definition apiGetToolCallHandler :: "uuid \<Rightarrow> 's Store \<Rightarrow> SentinelToolCall response" where
  "apiGetToolCallHandler toolCallId store =
     (case GetToolCall store toolCallId of
        Inl e \<Rightarrow> ErrorResponse StatusInternalServerError ''error getting tool call'' e
      | Inr None \<Rightarrow> ErrorResponse StatusNotFound ''tool call not found'' ''''
      | Inr (Some toolCall) \<Rightarrow> JSONResponse toolCall StatusOK)"

definition apiGetRunMessagesHandler :: "uuid \<Rightarrow> 's Store \<Rightarrow> SentinelMessage list response" where
  "apiGetRunMessagesHandler runId store =
     (case GetMessagesForRun store runId of
        Inl e \<Rightarrow> ErrorResponse StatusInternalServerError ''error getting messages for run'' e
      | Inr messages \<Rightarrow> JSONResponse messages StatusOK)"

text \<open>
  The loop of \<open>apiGetToolCallStateHandler\<close> over the chains: \<open>Inl\<close> is the response
  of an early return (or the panic of \<open>*chainExecutionId\<close> and \<open>*ceState\<close> on a
  \<open>nil\<close> pointer), \<open>Inr\<close> the value of \<open>execution.Chains\<close> after the loop.
\<close>

fun apiGetToolCallStateHandler_loop ::
  "'s Store \<Rightarrow> uuid \<Rightarrow> Chain list \<Rightarrow> 's list \<Rightarrow> ('s, 't) RunExecution response + 's list" where
  "apiGetToolCallStateHandler_loop store toolCallId [] chainStates = Inr chainStates"
| "apiGetToolCallStateHandler_loop store toolCallId (chain # rest) chainStates =
     (case GetChainExecutionFromChainAndToolCall store (ChainId chain) toolCallId of
        Inl e \<Rightarrow> Inl (ErrorResponse StatusInternalServerError ''error getting chain execution'' e)
      | Inr None \<Rightarrow> Inl (Panicked NilPointerDereference)
      | Inr (Some chainExecutionId) \<Rightarrow>
          (case GetChainExecutionState store chainExecutionId of
             Inl e \<Rightarrow>
               Inl (ErrorResponse StatusInternalServerError
                      ''error getting chain execution state'' e)
           | Inr None \<Rightarrow> Inl (Panicked NilPointerDereference)
           | Inr (Some ceState) \<Rightarrow>
               apiGetToolCallStateHandler_loop store toolCallId rest (chainStates @ [ceState])))"

text \<open>
  \<open>getToolCallStatus\<close> is a function of the repository that is not in the source
  files.  The handler calls it as \<open>getToolCallStatus(ctx, toolCallId, store)\<close>; the
  model of the handler takes it as an argument of that type.
\<close>

definition apiGetToolCallStateHandler ::
  "Lib \<Rightarrow> (uuid \<Rightarrow> 's Store \<Rightarrow> err + 't) \<Rightarrow> uuid \<Rightarrow> 's Store \<Rightarrow> ('s, 't) RunExecution response" where
  "apiGetToolCallStateHandler lib getToolCallStatus toolCallId store =
     (case GetToolCall store toolCallId of
        Inl e \<Rightarrow> ErrorResponse StatusInternalServerError ''error getting tool call'' e
      | Inr None \<Rightarrow> ErrorResponse StatusNotFound ''Run not found'' ''''
      | Inr (Some toolCall) \<Rightarrow>
     (case uuid_Parse lib (tcToolId toolCall) of
        Inl e \<Rightarrow> ErrorResponse StatusInternalServerError ''error parsing tool id'' e
      | Inr toolId \<Rightarrow>
     (case GetSupervisorChains store toolId of
        Inl e \<Rightarrow> ErrorResponse StatusInternalServerError ''error getting chains'' e
      | Inr chains' \<Rightarrow>
     (case apiGetToolCallStateHandler_loop store toolCallId chains' [] of
        Inl r \<Rightarrow> r
      | Inr chainStates \<Rightarrow>
     (case getToolCallStatus toolCallId store of
        Inl e \<Rightarrow> ErrorResponse StatusInternalServerError ''error getting tool call status'' e
      | Inr status \<Rightarrow>
          JSONResponse \<lparr>Chains = chainStates, Toolcall = toolCall, Status = status\<rparr>
            StatusOK)))))"

section \<open>getToolCallStatus\<close>

text \<open>
  \<open>getToolCallStatus\<close> is called by the handler and is not in the source files.
  Its model follows the design text: one aggregate status is computed over the
  per-chain states of the tool call, by an aggregation rule that is a function of
  these states alone.  The rule itself (the precedence among the states) is left
  open by the design and is the argument \<open>policy\<close>.  The handler hands the function
  the identifier of the tool call and the Store, so the function finds the per-chain
  states the way the design describes: the tool call, its Tool, the chains of the
  Tool in their order, and for each chain its execution against the tool call and
  the state of that execution; a chain without an execution is an error.
\<close>

fun getToolCallStatus_states :: "'s Store \<Rightarrow> uuid \<Rightarrow> Chain list \<Rightarrow> err + 's list" where
  \<comment> \<open>Modelled from the spec: part of the absent \<open>getToolCallStatus\<close>; the states of
      the chains' executions against the tool call, in the order of the chains.\<close>
  "getToolCallStatus_states store toolCallId [] = Inr []"
| "getToolCallStatus_states store toolCallId (chain # rest) =
     (case GetChainExecutionFromChainAndToolCall store (ChainId chain) toolCallId of
        Inl e \<Rightarrow> Inl e
      | Inr None \<Rightarrow> Inl ''chain execution not found''
      | Inr (Some chainExecutionId) \<Rightarrow>
          (case GetChainExecutionState store chainExecutionId of
             Inl e \<Rightarrow> Inl e
           | Inr None \<Rightarrow> Inl ''chain execution state not found''
           | Inr (Some ceState) \<Rightarrow>
               (case getToolCallStatus_states store toolCallId rest of
                  Inl e \<Rightarrow> Inl e
                | Inr states \<Rightarrow> Inr (ceState # states))))"

definition getToolCallStatus ::
  "Lib \<Rightarrow> ('s list \<Rightarrow> 't) \<Rightarrow> uuid \<Rightarrow> 's Store \<Rightarrow> err + 't" where
  \<comment> \<open>Modelled from the spec: \<open>getToolCallStatus\<close> is absent from the source files.
      The aggregate status is the aggregation rule \<open>policy\<close> applied to the per-chain
      states of the tool call.\<close>
  "getToolCallStatus lib policy toolCallId store =
     (case GetToolCall store toolCallId of
        Inl e \<Rightarrow> Inl e
      | Inr None \<Rightarrow> Inl ''tool call not found''
      | Inr (Some toolCall) \<Rightarrow>
     (case uuid_Parse lib (tcToolId toolCall) of
        Inl e \<Rightarrow> Inl e
      | Inr toolId \<Rightarrow>
     (case GetSupervisorChains store toolId of
        Inl e \<Rightarrow> Inl e
      | Inr chains' \<Rightarrow>
     (case getToolCallStatus_states store toolCallId chains' of
        Inl e \<Rightarrow> Inl e
      | Inr states \<Rightarrow> Inr (policy states)))))"

section \<open>The event Hub\<close>













section \<open>Concrete libraries, stores and inputs\<close>

text \<open>
  A library whose decoders return a given request and response, and whose
  identifiers are counted: the \<open>n\<close>-th identifier prints as \<open>n\<close> letters.
\<close>

definition demo_lib :: "ChatCompletionRequest \<Rightarrow> ChatCompletionResponse \<Rightarrow> Lib" where
  "demo_lib request response =
     \<lparr>json_Decode_body = (\<lambda>body. Inr \<lparr>RequestData = ''cmVx'', ResponseData = ''cmVzcA==''\<rparr>),
      base64_DecodeString = (\<lambda>encoded. Inr encoded),
      json_Unmarshal_request = (\<lambda>bytes. Inr request),
      json_Marshal_request = (\<lambda>v. Inr ''request''),
      json_Unmarshal_response = (\<lambda>bytes. Inr response),
      json_Marshal_response = (\<lambda>v. Inr ''response''),
      uuid_New = (\<lambda>n. Suc n),
      uuid_String = (\<lambda>u. replicate u CHR ''u''),
      uuid_Parse = (\<lambda>s. Inr (length s))\<rparr>"

text \<open>
  A store for run \<open>1\<close> with the given logged messages, the one tool \<open>search\<close>, the
  one tool call \<open>5\<close>, and one chain for the tool whose execution has a state.
\<close>

definition demo_toolCall :: SentinelToolCall where
  "demo_toolCall =
     \<lparr>tcId = ''uuuuu'', tcToolId = ''uu'', tcName = Some ''search'',
      tcArguments = Some ''{}''\<rparr>"

definition demo_store :: "SentinelMessage list \<Rightarrow> string Store" where
  "demo_store logged =
     \<lparr>GetToolCall = (\<lambda>toolCallId. Inr (if toolCallId = 5 then Some demo_toolCall else None)),
      GetMessagesForRun = (\<lambda>runId. Inr (if runId = 1 then logged else [])),
      GetToolFromNameAndRunId =
        (\<lambda>name runId. Inr (if name = ''search'' \<and> runId = 1 then Some \<lparr>tlId = 2\<rparr> else None)),
      CreateChatRequest = (\<lambda>runId request response choices provider messages. Inr (Some 42)),
      GetSupervisorChains = (\<lambda>toolId. Inr (if toolId = 2 then [\<lparr>ChainId = 3\<rparr>] else [])),
      GetChainExecutionFromChainAndToolCall =
        (\<lambda>chainId toolCallId. Inr (if chainId = 3 \<and> toolCallId = 5 then Some 9 else None)),
      GetChainExecutionState =
        (\<lambda>chainExecutionId. Inr (if chainExecutionId = 9 then Some ''approved'' else None))\<rparr>"

definition demo_message :: "string \<Rightarrow> ChatCompletionMessage" where
  "demo_message content =
     \<lparr>oaRole = ''user'', oaContent = content, oaMultiContent = None, oaToolCalls = []\<rparr>"

definition demo_sentinel :: "nat \<Rightarrow> string \<Rightarrow> SentinelMessage" where
  "demo_sentinel k content =
     \<lparr>mId = Some (replicate k CHR ''u''), mRole = ''user'',
      mToolCalls = Some [], mType = Some Text, mContent = content\<rparr>"

definition demo_choice :: "string \<Rightarrow> string list \<Rightarrow> ChatCompletionChoice" where
  "demo_choice finishReason toolNames =
     \<lparr>oaIndex = 0,
      oaMessage = \<lparr>oaRole = ''assistant'', oaContent = ''ok'', oaMultiContent = None,
                   oaToolCalls = map (\<lambda>name. \<lparr>Function = \<lparr>fnName = name, fnArguments = ''{}''\<rparr>\<rparr>)
                                   toolNames\<rparr>,
      oaFinishReason = finishReason\<rparr>"

text \<open>
  The values of the internal finish-reason enumeration.
\<close>

definition known_finish_reasons :: "SentinelChoiceFinishReason list" where
  \<comment> \<open>Modelled from the spec: the declaration of \<open>SentinelChoiceFinishReason\<close> is
      absent from the source files; the spec names \<open>stop\<close>, \<open>tool_calls\<close> and
      \<open>length\<close>, and the provider's format adds the others.\<close>
  "known_finish_reasons =
     [''stop'', ''tool_calls'', ''length'', ''function_call'', ''content_filter'', ''null'']"



text \<open>
  The Choice that the conversion makes of \<open>demo_choice ''tool_calls'' [''search'', ''search'']\<close>
  when five identifiers have been drawn.
\<close>

definition demo_converted_choice :: SentinelChoice where
  "demo_converted_choice =
     \<lparr>SentinelId = ''uuuuuuuuu'', Index = 0,
      Message =
        \<lparr>mId = Some ''uuuuuuuu'', mRole = ''assistant'',
          mToolCalls =
            Some [\<lparr>tcId = ''uuuuuu'', tcToolId = ''uu'', tcName = Some ''search'',
                    tcArguments = Some ''{}''\<rparr>,
                  \<lparr>tcId = ''uuuuuuu'', tcToolId = ''uu'', tcName = Some ''search'',
                    tcArguments = Some ''{}''\<rparr>],
          mType = Some Text, mContent = ''ok''\<rparr>,
      FinishReason = ''tool_calls''\<rparr>"

section \<open>Filtering of the request messages\<close>

lemma apiCreateNewChatHandler_call:
  assumes "call \<in> set (snd (apiCreateNewChatHandler lib store n body runId))"
  shows "\<exists>payload jsonRequest requestMessages n1 jsonResponse response n2.
           json_Decode_body lib body = Inr payload \<and>
           validateAndDecodeRequest lib store n (RequestData payload) runId =
             Ok ((jsonRequest, requestMessages), n1) \<and>
           filterRequestMessages requestMessages runId store = Ok (cwMessages call) \<and>
           validateAndDecodeResponse lib (ResponseData payload) = Inr (jsonResponse, response) \<and>
           convertChoices lib store n1 (Choices response) runId = Ok (cwChoices call, n2) \<and>
           snd (apiCreateNewChatHandler lib store n body runId) = [call]"
  using assms
  by (auto simp: apiCreateNewChatHandler_def Let_def
           split: result.splits sum.splits prod.splits option.splits)

text \<open>
  Claim C1.  For a Run with \<open>k\<close> messages already logged and a request whose
  converted message list is \<open>k\<close> messages followed by the new messages,
  \<open>filterRequestMessages\<close> returns exactly the new messages, whatever \<open>k\<close> is, and a
  write of the handler to the Store carries exactly them.  The replayed messages
  \<open>old\<close> stand for the logged ones: the function only counts them.
\<close>

theorem filterRequestMessages_returns_new_messages:
  assumes "GetMessagesForRun store runId = Inr logged"
    and "length old = length logged"
  shows "filterRequestMessages (old @ new) runId store = Ok new \<and>
         (json_Decode_body lib body = Inr payload \<longrightarrow>
          validateAndDecodeRequest lib store n (RequestData payload) runId =
            Ok ((jsonRequest, old @ new), n1) \<longrightarrow>
          (\<forall>call \<in> set (snd (apiCreateNewChatHandler lib store n body runId)).
             cwMessages call = new))"
proof -
  have filtered: "filterRequestMessages (old @ new) runId store = Ok new"
    using assms by (simp add: filterRequestMessages_def)
  then show ?thesis
    by (auto dest!: apiCreateNewChatHandler_call)
qed

theorem filterRequestMessages_returns_new_messages_witness:
  "filterRequestMessages ([demo_sentinel 5 ''a'', demo_sentinel 6 ''b''] @ [demo_sentinel 7 ''c''])
     1 (demo_store [demo_sentinel 1 ''a'', demo_sentinel 2 ''b'']) = Ok [demo_sentinel 7 ''c''] \<and>
   map cwMessages (snd (apiCreateNewChatHandler
        (demo_lib \<lparr>Messages = [demo_message ''a'', demo_message ''b'', demo_message ''c'']\<rparr>
           \<lparr>Choices = [demo_choice ''stop'' []]\<rparr>)
        (demo_store [demo_sentinel 1 ''a'', demo_sentinel 2 ''b'']) 4 ''{}'' 1)) =
     [[demo_sentinel 7 ''c'']]"
proof -
  let ?lib = "demo_lib \<lparr>Messages = [demo_message ''a'', demo_message ''b'', demo_message ''c'']\<rparr>
                \<lparr>Choices = [demo_choice ''stop'' []]\<rparr>"
  let ?logged = "[demo_sentinel 1 ''a'', demo_sentinel 2 ''b'']"
  let ?payload = "\<lparr>RequestData = ''cmVx'', ResponseData = ''cmVzcA==''\<rparr>"
  have logged: "GetMessagesForRun (demo_store ?logged) 1 = Inr ?logged"
    by code_simp
  have len: "length [demo_sentinel 5 ''a'', demo_sentinel 6 ''b''] = length ?logged"
    by simp
  have body: "json_Decode_body ?lib ''{}'' = Inr ?payload"
    by code_simp
  have request:
    "validateAndDecodeRequest ?lib (demo_store ?logged) 4 (RequestData ?payload) 1 =
       Ok ((''request'', [demo_sentinel 5 ''a'', demo_sentinel 6 ''b''] @ [demo_sentinel 7 ''c'']), 7)"
    by code_simp
  have written: "length (snd (apiCreateNewChatHandler ?lib (demo_store ?logged) 4 ''{}'' 1)) = 1"
    by code_simp
  then obtain call where
    calls: "snd (apiCreateNewChatHandler ?lib (demo_store ?logged) 4 ''{}'' 1) = [call]"
    by (cases "snd (apiCreateNewChatHandler ?lib (demo_store ?logged) 4 ''{}'' 1)") auto
  from filterRequestMessages_returns_new_messages
         [OF logged len, of "[demo_sentinel 7 ''c'']" ?lib "''{}''" ?payload 4 "''request''" 7]
       body request calls
  show ?thesis
    by simp
qed

lemma filterRequestMessages_in_range:
  assumes "GetMessagesForRun store runId = Inr logged"
    and "length logged \<le> length requestMessages"
  shows "filterRequestMessages requestMessages runId store =
           Ok (drop (length logged) requestMessages)"
  using assms by (simp add: filterRequestMessages_def)

lemma filterRequestMessages_out_of_range:
  assumes "GetMessagesForRun store runId = Inr logged"
    and "length requestMessages < length logged"
  shows "filterRequestMessages requestMessages runId store =
           Panic (SliceBoundsOutOfRange (length logged) (length requestMessages))"
  using assms by (simp add: filterRequestMessages_def)

text \<open>
  Claim C2.  The claim: when more messages are logged for the Run than the request
  carries, the filtering step ends with an error or an empty result, never with an
  out-of-range slice.  The code slices without comparing the two lengths: with one
  message logged and a request without messages, \<open>requestMessages[1:]\<close> panics, and
  the handler with it, although the function has an error result that the handler
  turns into a response.
\<close>

theorem filterRequestMessages_panics_on_short_request:
  "filterRequestMessages [] 1 (demo_store [demo_sentinel 1 ''a'']) =
     Panic (SliceBoundsOutOfRange 1 0) \<and>
   apiCreateNewChatHandler (demo_lib \<lparr>Messages = []\<rparr> \<lparr>Choices = [demo_choice ''stop'' []]\<rparr>)
     (demo_store [demo_sentinel 1 ''a'']) 4 ''{}'' 1 =
     (Panicked (SliceBoundsOutOfRange 1 0), [])"
  by code_simp

section \<open>Tool calls that do not resolve\<close>

lemma convertToolCall_unresolved:
  assumes "\<forall>tool. GetToolFromNameAndRunId store (fnName (Function toolCall)) runId \<noteq> Inr (Some tool)"
  shows "\<exists>e. convertToolCall lib store n toolCall runId = Err e"
  using assms by (auto simp: convertToolCall_def split: sum.splits option.splits)

lemma convertToolCall_no_panic: "convertToolCall lib store n toolCall runId \<noteq> Panic p"
  by (auto simp: convertToolCall_def Let_def split: sum.splits option.splits)

lemma convertToolCalls_loop_unresolved:
  assumes "toolCall \<in> set toolCalls"
    and "\<forall>tool. GetToolFromNameAndRunId store (fnName (Function toolCall)) runId \<noteq> Inr (Some tool)"
  shows "\<exists>e. convertToolCalls_loop lib store runId toolCalls acc n = Err e"
  using assms
proof (induction toolCalls arbitrary: acc n)
  case Nil
  then show ?case by simp
next
  case (Cons t rest)
  show ?case
  proof (cases "convertToolCall lib store n t runId")
    case (Ok r)
    then have "t \<noteq> toolCall"
      using convertToolCall_unresolved [OF Cons.prems(2), of lib n] by auto
    with Cons.prems have "toolCall \<in> set rest" by simp
    from Cons.IH [OF this Cons.prems(2)] Ok show ?thesis
      by (cases r) simp
  next
    case (Err e)
    then show ?thesis by simp
  next
    case (Panic p)
    then show ?thesis using convertToolCall_no_panic by blast
  qed
qed

lemma convertMessage_unresolved:
  assumes "toolCall \<in> set (oaToolCalls message)"
    and "\<forall>tool. GetToolFromNameAndRunId store (fnName (Function toolCall)) runId \<noteq> Inr (Some tool)"
  shows "\<exists>e. convertMessage lib store n message runId = Err e"
  using convertToolCalls_loop_unresolved [OF assms, of lib "[]" n]
  by (auto simp: convertMessage_def convertToolCalls_def)

lemma convertChoices_loop_unresolved:
  assumes "choice \<in> set choices"
    and "toolCall \<in> set (oaToolCalls (oaMessage choice))"
    and "\<forall>tool. GetToolFromNameAndRunId store (fnName (Function toolCall)) runId \<noteq> Inr (Some tool)"
  shows "convertChoices_loop lib store runId choices acc n \<noteq> Ok r"
  using assms(1)
proof (induction choices arbitrary: acc n)
  case Nil
  then show ?case by simp
next
  case (Cons c rest)
  show ?case
  proof (cases "c = choice")
    case True
    then show ?thesis
      using convertMessage_unresolved [OF assms(2,3), of lib n] by auto
  next
    case False
    with Cons.prems have "choice \<in> set rest" by simp
    from Cons.IH [OF this] show ?thesis
      by (auto simp: Let_def split: result.splits)
  qed
qed





lemma unknown_tool_never_written:
  assumes "json_Decode_body lib body = Inr payload"
    and "validateAndDecodeResponse lib (ResponseData payload) = Inr (jsonResponse, response)"
    and "choice \<in> set (Choices response)"
    and "toolCall \<in> set (oaToolCalls (oaMessage choice))"
    and "\<forall>tool. GetToolFromNameAndRunId store (fnName (Function toolCall)) runId \<noteq> Inr (Some tool)"
  shows "snd (apiCreateNewChatHandler lib store n body runId) = [] \<and>
         (\<forall>st. status_of (fst (apiCreateNewChatHandler lib store n body runId)) = Some st
                 \<longrightarrow> st = StatusBadRequest)"
  using assms(1,2) convertChoices_loop_unresolved [OF assms(3,4,5), of lib "[]"]
  by (auto simp: apiCreateNewChatHandler_def convertChoices_def
           split: result.splits sum.splits prod.splits)



section \<open>Finish reasons\<close>

lemma convertChoices_loop_FinishReason:
  assumes "convertChoices_loop lib store runId choices acc n = Ok (result, n')"
  shows "map FinishReason result = map FinishReason acc @ map oaFinishReason choices"
  using assms
proof (induction choices arbitrary: acc n)
  case Nil
  then show ?case by simp
next
  case (Cons c rest)
  from Cons.prems obtain message k where
    "convertMessage lib store n (oaMessage c) runId = Ok (message, k)"
    by (auto split: result.splits)
  with Cons.prems Cons.IH show ?case
    by (fastforce simp: Let_def)
qed

lemma convertChoices_loop_ignores_FinishReason:
  "map_result snd
     (convertChoices_loop lib store runId (map (\<lambda>c. c\<lparr>oaFinishReason := f c\<rparr>) choices) acc' n) =
   map_result snd (convertChoices_loop lib store runId choices acc n)"
proof (induction choices arbitrary: acc acc' n)
  case Nil
  show ?case by simp
next
  case (Cons c rest)
  show ?case
  proof (cases "convertMessage lib store n (oaMessage c) runId")
    case (Ok r)
    obtain message k where r: "r = (message, k)" by (cases r)
    show ?thesis
      using Ok r Cons.IH by (simp add: Let_def)
  qed simp_all
qed

text \<open>
  Claim C4, as stated, fails: the finish reason \<open>banana\<close> is none of the known
  values, and the converted Choice carries the string \<open>banana\<close> itself.  The code
  converts the provider's string to the internal string type and has no variant for
  values it does not know.
\<close>

theorem unknown_finish_reason_counterexample:
  "''banana'' \<notin> set known_finish_reasons \<and>
   convertChoices (demo_lib \<lparr>Messages = []\<rparr> \<lparr>Choices = [demo_choice ''banana'' []]\<rparr>)
     (demo_store []) 4 [demo_choice ''banana'' []] 1 =
   Ok ([\<lparr>SentinelId = ''uuuuuu'', Index = 0,
          Message = \<lparr>mId = Some ''uuuuu'', mRole = ''assistant'', mToolCalls = Some [],
                      mType = Some ''text'', mContent = ''ok''\<rparr>,
          FinishReason = ''banana''\<rparr>], 6)"
  by code_simp

text \<open>
  Claim C4, amended.  For every list of response choices, the finish-reason strings
  have no part in whether the conversion succeeds (replacing them changes neither
  the error, nor the panic, nor the number of identifiers drawn), and every
  resulting Choice carries its provider's finish-reason string unchanged, known or
  not.
\<close>

theorem finish_reason_passes_through:
  "map_result snd
     (convertChoices lib store n (map (\<lambda>c. c\<lparr>oaFinishReason := f c\<rparr>) choices) runId) =
   map_result snd (convertChoices lib store n choices runId) \<and>
   (convertChoices lib store n choices runId = Ok (result, n') \<longrightarrow>
    map FinishReason result = map oaFinishReason choices)"
  using convertChoices_loop_ignores_FinishReason [of lib store runId f choices "[]" n "[]"]
    convertChoices_loop_FinishReason [of lib store runId choices "[]" n result n']
  by (simp add: convertChoices_def)

theorem finish_reason_passes_through_witness:
  "map FinishReason
     [\<lparr>SentinelId = ''uuuuuu'', Index = 0,
        Message = \<lparr>mId = Some ''uuuuu'', mRole = ''assistant'', mToolCalls = Some [],
                    mType = Some ''text'', mContent = ''ok''\<rparr>,
        FinishReason = ''banana''\<rparr>] =
   map oaFinishReason [demo_choice ''banana'' []]"
proof -
  have converted:
    "convertChoices (demo_lib \<lparr>Messages = []\<rparr> \<lparr>Choices = []\<rparr>) (demo_store []) 4
       [demo_choice ''banana'' []] 1 =
     Ok ([\<lparr>SentinelId = ''uuuuuu'', Index = 0,
            Message = \<lparr>mId = Some ''uuuuu'', mRole = ''assistant'', mToolCalls = Some [],
                        mType = Some ''text'', mContent = ''ok''\<rparr>,
            FinishReason = ''banana''\<rparr>], 6)"
    by code_simp
  from finish_reason_passes_through
         [of "demo_lib \<lparr>Messages = []\<rparr> \<lparr>Choices = []\<rparr>" "demo_store []" 4 "\<lambda>c. ''stop''"
             "[demo_choice ''banana'' []]" 1 _ 6] converted
  show ?thesis
    by blast
qed

section \<open>Store failures\<close>

lemma apiCreateNewChatHandler_store_failure:
  assumes "call \<in> set (snd (apiCreateNewChatHandler lib store n body runId))"
    and "CreateChatRequest store (cwRunId call) (cwRequest call) (cwResponse call)
           (cwChoices call) (cwProvider call) (cwMessages call) = Inl e"
  shows "fst (apiCreateNewChatHandler lib store n body runId) =
           ErrorResponse StatusBadRequest (''Error creating chat request: '' @ e) ''''"
  using assms
  by (auto simp: apiCreateNewChatHandler_def Let_def
           split: result.splits sum.splits prod.splits option.splits)

text \<open>
  Claim C5.  The claim: when decoding and conversion succeed and a Store operation
  fails, the handler answers with a 500 error.  The code answers 400 on both
  failures, the creation of the chat record and the read of the run's messages,
  while \<open>apiGetRunMessagesHandler\<close> answers 500 when the same read fails on the same
  store.
\<close>

theorem store_failure_answers_400:
  "fst (apiCreateNewChatHandler
          (demo_lib \<lparr>Messages = [demo_message ''a'']\<rparr> \<lparr>Choices = [demo_choice ''stop'' []]\<rparr>)
          ((demo_store [])\<lparr>CreateChatRequest :=
             \<lambda>runId request response choices provider messages. Inl ''connection refused''\<rparr>)
          4 ''{}'' 1) =
     ErrorResponse 400 ''Error creating chat request: connection refused'' '''' \<and>
   fst (apiCreateNewChatHandler
          (demo_lib \<lparr>Messages = [demo_message ''a'']\<rparr> \<lparr>Choices = [demo_choice ''stop'' []]\<rparr>)
          ((demo_store [])\<lparr>GetMessagesForRun := \<lambda>runId. Inl ''connection refused''\<rparr>)
          4 ''{}'' 1) =
     ErrorResponse 400
       ''Error filtering request messages: error getting messages for run: connection refused'' '''' \<and>
   apiGetRunMessagesHandler 1
     ((demo_store [])\<lparr>GetMessagesForRun := \<lambda>runId. Inl ''connection refused''\<rparr>) =
     ErrorResponse 500 ''error getting messages for run'' ''connection refused''"
  by code_simp

section \<open>Classification of a message\<close>

lemma convertMessage_loop_without_image:
  assumes "\<forall>content \<in> set multiContent. partType content \<noteq> ''image_url''"
  shows "convertMessage_loop multiContent (msgType, msgContent) = Inr (msgType, msgContent)"
  using assms by (induction multiContent) auto

lemma convertMessage_loop_last_image:
  assumes "\<forall>content \<in> set multiContent.
             partType content = ''image_url'' \<longrightarrow> partImageURL content \<noteq> None"
    and "filter (\<lambda>content. partType content = ''image_url'') multiContent \<noteq> []"
  shows "convertMessage_loop multiContent (msgType, msgContent) =
           Inr (ImageUrl,
               URL (the (partImageURL
                 (last (filter (\<lambda>content. partType content = ''image_url'') multiContent)))))"
  using assms
proof (induction multiContent arbitrary: msgType msgContent)
  case Nil
  then show ?case by simp
next
  case (Cons content rest)
  show ?case
  proof (cases "filter (\<lambda>content. partType content = ''image_url'') rest = []")
    case True
    then have "\<forall>content \<in> set rest. partType content \<noteq> ''image_url''"
      by (simp add: filter_empty_conv)
    from convertMessage_loop_without_image [OF this] True Cons.prems show ?thesis
      by (auto split: if_splits)
  next
    case False
    with Cons.IH Cons.prems(1) show ?thesis
      by auto
  qed
qed

lemma convertMessage_without_MultiContent:
  assumes "oaMultiContent message = None"
    and "convertMessage lib store n message runId = Ok (converted, n')"
  shows "mType converted = Some Text \<and> mContent converted = oaContent message"
  using assms by (auto simp: convertMessage_def Let_def split: result.splits sum.splits)

text \<open>
  Claim C6.  The claim: a message with multi-part content and no image part is
  classified as Text, and conversion is never an error.  The code assigns the type
  only for an image part or for a message without multi-part content: with the one
  part \<open>{type: text, text: hello}\<close> the converted message has the zero value of
  \<open>MessageType\<close>, which is not \<open>Text\<close>, and empty content; and an image part
  without its URL object makes the conversion panic.
\<close>

theorem convertMessage_multi_part_without_image:
  "convertMessage (demo_lib \<lparr>Messages = []\<rparr> \<lparr>Choices = []\<rparr>) (demo_store []) 4
     \<lparr>oaRole = ''user'', oaContent = '''',
      oaMultiContent = Some [\<lparr>partType = ''text'', partText = ''hello'', partImageURL = None\<rparr>],
      oaToolCalls = []\<rparr> 1 =
   Ok (\<lparr>mId = Some ''uuuuu'', mRole = ''user'', mToolCalls = Some [],
         mType = Some MessageType_zero, mContent = ''''\<rparr>, 5) \<and>
   MessageType_zero \<noteq> Text \<and>
   convertMessage (demo_lib \<lparr>Messages = []\<rparr> \<lparr>Choices = []\<rparr>) (demo_store []) 4
     \<lparr>oaRole = ''user'', oaContent = '''',
      oaMultiContent = Some [\<lparr>partType = ''image_url'', partText = '''', partImageURL = None\<rparr>],
      oaToolCalls = []\<rparr> 1 =
   Panic NilPointerDereference"
  by code_simp

section \<open>The identifiers returned by an ingestion\<close>

lemma extractChatIds_toolCalls_append:
  "extractChatIds_toolCalls toolCalls toolCallIds =
     toolCallIds @ map (\<lambda>toolCall. \<lparr>ToolCallId = Some (tcId toolCall),
                                    ToolId = Some (tcToolId toolCall)\<rparr>) toolCalls"
  by (induction toolCalls arbitrary: toolCallIds) auto

lemma extractChatIds_loop_covers:
  assumes "extractChatIds_loop choices result = Inr chatIds"
  shows "ChatId chatIds = ChatId result \<and>
         (\<exists>new. ChoiceIds chatIds = ChoiceIds result @ new \<and>
           list_all2 (\<lambda>choice ids.
               ChoiceId ids = SentinelId choice \<and>
               mId (Message choice) = Some (MessageId ids) \<and>
               list_all2 (\<lambda>toolCall tids. ToolCallId tids = Some (tcId toolCall) \<and>
                                          ToolId tids = Some (tcToolId toolCall))
                 (case mToolCalls (Message choice) of None \<Rightarrow> [] | Some toolCalls \<Rightarrow> toolCalls)
                 (ToolCallIds ids))
             choices new)"
  using assms
proof (induction choices arbitrary: result)
  case Nil
  then show ?case by auto
next
  case (Cons choice rest)
  from Cons.prems obtain messageId where mid: "mId (Message choice) = Some messageId"
    by (auto split: option.splits)
  let ?ids = "\<lparr>ChoiceId = SentinelId choice, MessageId = messageId,
               ToolCallIds = extractChatIds_toolCalls
                 (case mToolCalls (Message choice) of None \<Rightarrow> [] | Some toolCalls \<Rightarrow> toolCalls) []\<rparr>"
  from Cons.prems mid have
    "extractChatIds_loop rest (result\<lparr>ChoiceIds := ChoiceIds result @ [?ids]\<rparr>) = Inr chatIds"
    by (auto simp: Let_def split: option.splits)
  from Cons.IH [OF this] show ?case
    using mid
    by (auto simp: extractChatIds_toolCalls_append list_all2_map2 list_all2_same)
qed

lemma extractChatIds_loop_returns:
  assumes "\<forall>choice \<in> set choices. mId (Message choice) \<noteq> None"
  shows "\<exists>chatIds. extractChatIds_loop choices result = Inr chatIds"
  using assms
  by (induction choices arbitrary: result) (auto simp: Let_def split: option.splits)

lemma convertToolCalls_loop_length:
  assumes "convertToolCalls_loop lib store runId toolCalls acc n = Ok (result, n')"
  shows "length result = length acc + length toolCalls"
  using assms
proof (induction toolCalls arbitrary: acc n)
  case Nil
  then show ?case by simp
next
  case (Cons toolCall rest)
  from Cons.prems obtain converted k where
    c: "convertToolCall lib store n toolCall runId = Ok (converted, k)"
    by (auto split: result.splits)
  then obtain tc where "converted = Some tc"
    by (auto simp: convertToolCall_def Let_def split: sum.splits option.splits)
  with c Cons.prems Cons.IH [of "acc @ [tc]" k] show ?case
    by simp
qed

lemma convertMessage_toolCalls:
  assumes "convertMessage lib store n message runId = Ok (converted, n')"
  shows "mId converted \<noteq> None \<and>
         (\<exists>toolCalls. mToolCalls converted = Some toolCalls \<and>
            length toolCalls = length (oaToolCalls message))"
  using assms convertToolCalls_loop_length [of lib store runId "oaToolCalls message" "[]" n]
  by (auto simp: convertMessage_def convertToolCalls_def Let_def split: result.splits sum.splits)

lemma convertChoices_loop_toolCalls:
  assumes "convertChoices_loop lib store runId choices acc n = Ok (result, n')"
  shows "\<exists>new. result = acc @ new \<and>
           list_all2 (\<lambda>choice converted.
               mId (Message converted) \<noteq> None \<and>
               (\<exists>toolCalls. mToolCalls (Message converted) = Some toolCalls \<and>
                  length toolCalls = length (oaToolCalls (oaMessage choice))))
             choices new"
  using assms
proof (induction choices arbitrary: acc n)
  case Nil
  then show ?case by simp
next
  case (Cons choice rest)
  from Cons.prems obtain message k where
    m: "convertMessage lib store n (oaMessage choice) runId = Ok (message, k)"
    by (auto split: result.splits)
  let ?converted = "\<lparr>SentinelId = uuid_String lib (uuid_New lib k), Index = oaIndex choice,
                     Message = message, FinishReason = oaFinishReason choice\<rparr>"
  from Cons.prems m have
    "convertChoices_loop lib store runId rest (acc @ [?converted]) (Suc k) = Ok (result, n')"
    by (simp add: Let_def)
  from Cons.IH [OF this] convertMessage_toolCalls [OF m] show ?case
    by auto
qed

text \<open>
  Claim C7.  Every successful ingestion (the request and the response are decoded
  and converted, and the Store returns the identifier of the new chat) answers 200
  with a projection that carries the chat's identifier and lists the converted
  Choices one by one and in order, each entry with its Choice's identifier and the
  identifier of its Message, and within each entry the tool calls of that message
  one by one and in order, each pair with the tool call's identifier and its
  Tool's; the converted message has one tool call per tool call of the response
  choice.  The lists match in length, so none is left out or repeated.
\<close>

theorem chat_ids_cover_choices_and_tool_calls:
  assumes "json_Decode_body lib body = Inr payload"
    and "validateAndDecodeRequest lib store n (RequestData payload) runId =
           Ok ((jsonRequest, requestMessages), n1)"
    and "filterRequestMessages requestMessages runId store = Ok newRequestMessages"
    and "validateAndDecodeResponse lib (ResponseData payload) = Inr (jsonResponse, response)"
    and "convertChoices lib store n1 (Choices response) runId = Ok (choices, n2)"
    and "CreateChatRequest store runId jsonRequest jsonResponse choices ''openai''
           newRequestMessages = Inr (Some chatId)"
  shows "\<exists>choiceIds.
           apiCreateNewChatHandler lib store n body runId =
             (JSONResponse \<lparr>ChatId = chatId, ChoiceIds = choiceIds\<rparr> StatusOK,
              [\<lparr>cwRunId = runId, cwRequest = jsonRequest, cwResponse = jsonResponse,
                 cwChoices = choices, cwProvider = ''openai'',
                 cwMessages = newRequestMessages\<rparr>]) \<and>
           list_all2 (\<lambda>choice converted.
               \<exists>toolCalls. mToolCalls (Message converted) = Some toolCalls \<and>
                 length toolCalls = length (oaToolCalls (oaMessage choice)))
             (Choices response) choices \<and>
           list_all2 (\<lambda>converted ids.
               ChoiceId ids = SentinelId converted \<and>
               mId (Message converted) = Some (MessageId ids) \<and>
               list_all2 (\<lambda>toolCall tids. ToolCallId tids = Some (tcId toolCall) \<and>
                                          ToolId tids = Some (tcToolId toolCall))
                 (case mToolCalls (Message converted) of None \<Rightarrow> [] | Some toolCalls \<Rightarrow> toolCalls)
                 (ToolCallIds ids))
             choices choiceIds"
proof -
  from convertChoices_loop_toolCalls [of lib store runId "Choices response" "[]" n1 choices n2]
    assms(5)
  have converted:
    "list_all2 (\<lambda>choice converted.
        mId (Message converted) \<noteq> None \<and>
        (\<exists>toolCalls. mToolCalls (Message converted) = Some toolCalls \<and>
           length toolCalls = length (oaToolCalls (oaMessage choice))))
      (Choices response) choices"
    by (simp add: convertChoices_def)
  then have "\<forall>choice \<in> set choices. mId (Message choice) \<noteq> None"
    by (auto simp: list_all2_conv_all_nth in_set_conv_nth)
  from extractChatIds_loop_returns [OF this] obtain chatIds where
    ids: "extractChatIds chatId choices = Inr chatIds"
    by (auto simp: extractChatIds_def)
  from extractChatIds_loop_covers [OF ids [unfolded extractChatIds_def]]
  have chat: "chatIds = \<lparr>ChatId = chatId, ChoiceIds = ChoiceIds chatIds\<rparr>"
    and covers:
      "list_all2 (\<lambda>converted ids.
          ChoiceId ids = SentinelId converted \<and>
          mId (Message converted) = Some (MessageId ids) \<and>
          list_all2 (\<lambda>toolCall tids. ToolCallId tids = Some (tcId toolCall) \<and>
                                     ToolId tids = Some (tcToolId toolCall))
            (case mToolCalls (Message converted) of None \<Rightarrow> [] | Some toolCalls \<Rightarrow> toolCalls)
            (ToolCallIds ids))
        choices (ChoiceIds chatIds)"
    by auto
  have answer:
    "apiCreateNewChatHandler lib store n body runId =
       (JSONResponse chatIds StatusOK,
        [\<lparr>cwRunId = runId, cwRequest = jsonRequest, cwResponse = jsonResponse,
           cwChoices = choices, cwProvider = ''openai'', cwMessages = newRequestMessages\<rparr>])"
    using assms ids by (simp add: apiCreateNewChatHandler_def)
  have toolCalls:
    "list_all2 (\<lambda>choice converted.
        \<exists>toolCalls. mToolCalls (Message converted) = Some toolCalls \<and>
          length toolCalls = length (oaToolCalls (oaMessage choice)))
      (Choices response) choices"
    using converted by (rule list_all2_mono) simp
  from answer chat toolCalls covers show ?thesis
    by (intro exI [of _ "ChoiceIds chatIds"]) simp
qed

lemma demo_ingestion_two_tool_calls:
  "apiCreateNewChatHandler
     (demo_lib \<lparr>Messages = [demo_message ''a'']\<rparr>
        \<lparr>Choices = [demo_choice ''tool_calls'' [''search'', ''search'']]\<rparr>)
     (demo_store []) 4 ''{}'' 1 =
   (JSONResponse
      \<lparr>ChatId = 42,
        ChoiceIds =
          [\<lparr>ChoiceId = ''uuuuuuuuu'', MessageId = ''uuuuuuuu'',
             ToolCallIds = [\<lparr>ToolCallId = Some ''uuuuuu'', ToolId = Some ''uu''\<rparr>,
                            \<lparr>ToolCallId = Some ''uuuuuuu'', ToolId = Some ''uu''\<rparr>]\<rparr>]\<rparr>
      200,
    [\<lparr>cwRunId = 1, cwRequest = ''request'', cwResponse = ''response'',
       cwChoices =
         [\<lparr>SentinelId = ''uuuuuuuuu'', Index = 0,
            Message =
              \<lparr>mId = Some ''uuuuuuuu'', mRole = ''assistant'',
                mToolCalls =
                  Some [\<lparr>tcId = ''uuuuuu'', tcToolId = ''uu'', tcName = Some ''search'',
                          tcArguments = Some ''{}''\<rparr>,
                        \<lparr>tcId = ''uuuuuuu'', tcToolId = ''uu'', tcName = Some ''search'',
                          tcArguments = Some ''{}''\<rparr>],
                mType = Some ''text'', mContent = ''ok''\<rparr>,
            FinishReason = ''tool_calls''\<rparr>],
       cwProvider = ''openai'',
       cwMessages = [demo_sentinel 5 ''a'']\<rparr>])"
  by code_simp

theorem chat_ids_cover_choices_and_tool_calls_witness:
  "\<exists>choiceIds.
     apiCreateNewChatHandler
       (demo_lib \<lparr>Messages = [demo_message ''a'']\<rparr>
          \<lparr>Choices = [demo_choice ''tool_calls'' [''search'', ''search'']]\<rparr>)
       (demo_store []) 4 ''{}'' 1 =
       (JSONResponse \<lparr>ChatId = 42, ChoiceIds = choiceIds\<rparr> StatusOK,
        [\<lparr>cwRunId = 1, cwRequest = ''request'', cwResponse = ''response'',
           cwChoices = [demo_converted_choice], cwProvider = ''openai'',
           cwMessages = [demo_sentinel 5 ''a'']\<rparr>]) \<and>
     list_all2 (\<lambda>choice converted.
         \<exists>toolCalls. mToolCalls (Message converted) = Some toolCalls \<and>
           length toolCalls = length (oaToolCalls (oaMessage choice)))
       (Choices \<lparr>Choices = [demo_choice ''tool_calls'' [''search'', ''search'']]\<rparr>)
       [demo_converted_choice] \<and>
     list_all2 (\<lambda>converted ids.
         ChoiceId ids = SentinelId converted \<and>
         mId (Message converted) = Some (MessageId ids) \<and>
         list_all2 (\<lambda>toolCall tids. ToolCallId tids = Some (tcId toolCall) \<and>
                                    ToolId tids = Some (tcToolId toolCall))
           (case mToolCalls (Message converted) of None \<Rightarrow> [] | Some toolCalls \<Rightarrow> toolCalls)
           (ToolCallIds ids))
       [demo_converted_choice] choiceIds"
proof -
  let ?response = "\<lparr>Choices = [demo_choice ''tool_calls'' [''search'', ''search'']]\<rparr>"
  let ?lib = "demo_lib \<lparr>Messages = [demo_message ''a'']\<rparr> ?response"
  let ?payload = "\<lparr>RequestData = ''cmVx'', ResponseData = ''cmVzcA==''\<rparr>"
  have body: "json_Decode_body ?lib ''{}'' = Inr ?payload"
    by code_simp
  have request:
    "validateAndDecodeRequest ?lib (demo_store []) 4 (RequestData ?payload) 1 =
       Ok ((''request'', [demo_sentinel 5 ''a'']), 5)"
    by code_simp
  have filtered: "filterRequestMessages [demo_sentinel 5 ''a''] 1 (demo_store []) =
                    Ok [demo_sentinel 5 ''a'']"
    by code_simp
  have resp: "validateAndDecodeResponse ?lib (ResponseData ?payload) = Inr (''response'', ?response)"
    by code_simp
  have converted:
    "convertChoices ?lib (demo_store []) 5 (Choices ?response) 1 = Ok ([demo_converted_choice], 9)"
    by code_simp
  have written:
    "CreateChatRequest (demo_store []) 1 ''request'' ''response'' [demo_converted_choice]
       ''openai'' [demo_sentinel 5 ''a''] = Inr (Some 42)"
    by code_simp
  show ?thesis
    by (rule chat_ids_cover_choices_and_tool_calls
          [OF body request filtered resp converted written])
qed

section \<open>The state of a tool call\<close>






lemma apiGetToolCallStateHandler_loop_nil:
  assumes "GetChainExecutionFromChainAndToolCall store (ChainId chain) toolCallId = Inr None"
  shows "apiGetToolCallStateHandler_loop store toolCallId (chain # rest) chainStates =
           Inl (Panicked NilPointerDereference)"
  using assms by simp

text \<open>
  Claim C9.  The claim: a Chain that was never executed against the ToolCall, for
  which the lookup of the chain execution returns no identifier and no error, is
  reported to the caller as an error.  The code dereferences the identifier without
  comparing it with \<open>nil\<close>, and the handler panics, whatever function computes the
  status; the lookups of the tool call in the same file compare with \<open>nil\<close> and
  answer 404.
\<close>

theorem missing_chain_execution_panics:
  "apiGetToolCallStateHandler (demo_lib \<lparr>Messages = []\<rparr> \<lparr>Choices = []\<rparr>)
     getToolCallStatus' 5
     ((demo_store [])\<lparr>GetChainExecutionFromChainAndToolCall := \<lambda>chainId toolCallId. Inr None\<rparr>) =
     Panicked NilPointerDereference \<and>
   apiGetToolCallStateHandler (demo_lib \<lparr>Messages = []\<rparr> \<lparr>Choices = []\<rparr>)
     getToolCallStatus' 6 (demo_store []) =
     ErrorResponse 404 ''Run not found'' '''' \<and>
   apiGetToolCallHandler 6 (demo_store []) = ErrorResponse 404 ''tool call not found'' ''''"
  by (simp add: apiGetToolCallStateHandler_def apiGetToolCallHandler_def demo_store_def
        demo_lib_def demo_toolCall_def StatusNotFound_def)

section \<open>Fan-out of the Hub\<close>













end
